theory Spec2Isabelle
  imports Complex_Main "HOL-Library.AList"
begin

section \<open>Data model\<close>

text \<open>
  The two source files, \<^verbatim>\<open>load_data.py\<close> (class \<^verbatim>\<open>DataLoader\<close>) and
  \<^verbatim>\<open>visualize_data.py\<close>, are glue around pandas, pyarrow and matplotlib. The embedding
  keeps the control flow, the column accesses, the exceptions and the in-place updates
  of the Python, and records every \<^verbatim>\<open>print\<close> and every drawing call as an event.

  A path is kept as its text; pathlib's normalisation is not modelled, the filesystem is
  keyed by the very path values the loader builds.
\<close>

type_synonym path = string

text \<open>
  The exceptions the code can meet. \<open>Raised msg\<close> is an exception raised inside a
  library reader (pyarrow, pandas), with its message.
\<close>

datatype error =
    ValueError
  | KeyError string
  | IndexError
  | UnboundLocalError string
  | Raised string

text \<open>
  A DataFrame: an index of \<open>nrows\<close> rows and named columns in order. The files of this
  dataset are numeric, so a cell is a number or NaN (pandas' missing value); numbers are
  idealised as reals. Column names are taken to be unique (the first one wins).
\<close>

datatype cell = NaN | Num real

type_synonym series = "cell list"

record table =
  nrows :: nat
  cols :: "(string \<times> series) list"

text \<open>The handle \<^verbatim>\<open>pq.ParquetFile\<close> returns, with the three attributes the code reads.\<close>

record parquet_file =
  num_row_groups :: nat
  schema :: "string list"
  pandas_metadata :: bool

text \<open>
  What the three library readers do on a file, as the filesystem state decides it:
  \<open>Inl msg\<close> when the reader raises an \<^verbatim>\<open>Exception\<close> with that message. A path that
  is not in the filesystem does not exist.
\<close>

record disk_file =
  ParquetFile :: "string + parquet_file"
  read_parquet :: "string + table"
  read_csv :: "string + table"

type_synonym filesystem = "path \<Rightarrow> disk_file option"

definition path_exists :: "filesystem \<Rightarrow> path \<Rightarrow> bool" where
  "path_exists fs p = (fs p \<noteq> None)"

definition joinpath :: "path \<Rightarrow> string \<Rightarrow> path" where
  "joinpath d name = d @ ''/'' @ name"

definition path_name :: "path \<Rightarrow> string" where
  "path_name p = rev (takeWhile (\<lambda>c. c \<noteq> CHR ''/'') (rev p))"

subsection \<open>Console and canvas\<close>

text \<open>
  Values that are interpolated into a printed line or handed to a drawing call.
  \<open>Lib f args\<close> stands for what the library function \<open>f\<close> computes from \<open>args\<close>
  where the embedding does not compute it (dtypes, describe, log1p, skew, kurtosis,
  corr, sorted over values with NaN).
\<close>

datatype val =
    N nat
  | I int
  | R cell
  | B bool
  | Str string
  | Strs "string list"
  | S series
  | Counts "(string \<times> nat) list"
  | T table
  | PF parquet_file
  | Lib string "val list"

text \<open>
  \<open>Print l vs\<close> is the line printed by the \<^verbatim>\<open>print\<close> statement at line \<open>l\<close> of its
  source file, with the values \<open>vs\<close> interpolated in order. \<open>Call f vs\<close> is the call of
  the plotting function \<open>f\<close> with the data \<open>vs\<close>; constant styling arguments are dropped,
  and calls that only set titles, labels, scales, ticks or the layout are not recorded.
\<close>

datatype notice = Print nat "val list"

datatype call = Call string "val list"

type_synonym ref = nat

text \<open>
  The state a call runs in: what has been printed, what has been drawn, and the
  DataFrame objects, by reference (Python passes a DataFrame by reference, and
  \<^verbatim>\<open>plot_book_analysis\<close> assigns a column of the frame it is given).
\<close>

record world =
  console :: "notice list"
  canvas :: "call list"
  objs :: "ref \<Rightarrow> table"

type_synonym 'a io = "world \<Rightarrow> world \<times> (error + 'a)"

definition say :: "nat \<Rightarrow> val list \<Rightarrow> world \<Rightarrow> world" where
  "say l vs w = w\<lparr>console := console w @ [Print l vs]\<rparr>"

definition print_io :: "nat \<Rightarrow> val list \<Rightarrow> unit io" where
  "print_io l vs w = (say l vs w, Inr ())"

definition draw :: "string \<Rightarrow> val list \<Rightarrow> unit io" where
  "draw f vs w = (w\<lparr>canvas := canvas w @ [Call f vs]\<rparr>, Inr ())"

definition return_io :: "'a \<Rightarrow> 'a io" where
  "return_io x w = (w, Inr x)"

definition raise_io :: "error \<Rightarrow> 'a io" where
  "raise_io e w = (w, Inl e)"

text \<open>Statements in sequence: the first exception ends the run.\<close>

fun seq_io :: "unit io list \<Rightarrow> unit io" where
  "seq_io [] w = (w, Inr ())"
| "seq_io (s # ss) w =
     (case s w of
        (w', Inl e) \<Rightarrow> (w', Inl e)
      | (w', Inr u) \<Rightarrow> seq_io ss w')"

text \<open>\<^verbatim>\<open>df\<close> read through its reference, and \<^verbatim>\<open>df[c]\<close>, which raises KeyError.\<close>

definition deref :: "ref \<Rightarrow> (table \<Rightarrow> 'a io) \<Rightarrow> 'a io" where
  "deref r k w = k (objs w r) w"

definition columns :: "table \<Rightarrow> string list" where
  "columns df = map fst (cols df)"

definition getitem :: "table \<Rightarrow> string \<Rightarrow> (series \<Rightarrow> 'a io) \<Rightarrow> 'a io" where
  "getitem df c k w =
     (case map_of (cols df) c of
        None \<Rightarrow> (w, Inl (KeyError c))
      | Some xs \<Rightarrow> k xs w)"

text \<open>\<^verbatim>\<open>df[c] = xs\<close> on the object itself: replaces the column, or appends it.\<close>

definition setitem :: "ref \<Rightarrow> string \<Rightarrow> series \<Rightarrow> unit io" where
  "setitem r c xs w =
     (w\<lparr>objs := (objs w)(r := (objs w r)\<lparr>cols := AList.update c xs (cols (objs w r))\<rparr>)\<rparr>,
      Inr ())"

subsection \<open>pandas operations the code uses\<close>

text \<open>
  \<^verbatim>\<open>df.head(n)\<close>: the first \<open>n\<close> rows, and for a negative \<open>n\<close> all rows but the
  last \<open>-n\<close>.
\<close>

definition head :: "int \<Rightarrow> table \<Rightarrow> table" where
  "head n df =
     (let k = (if 0 \<le> n then min (nat n) (nrows df) else nrows df - nat (- n))
      in \<lparr>nrows = k, cols = map (\<lambda>(c, xs). (c, take k xs)) (cols df)\<rparr>)"

text \<open>\<^verbatim>\<open>df[mask]\<close>: the rows where the boolean mask \<open>keep\<close> holds.\<close>

definition filter_rows :: "table \<Rightarrow> bool list \<Rightarrow> table" where
  "filter_rows df keep =
     \<lparr>nrows = length (filter id (take (nrows df) keep)),
      cols = map (\<lambda>(c, xs). (c, map fst (filter snd (zip xs keep)))) (cols df)\<rparr>"

text \<open>The numbers of a series, NaN skipped, as every pandas reduction does.\<close>

fun numbers :: "series \<Rightarrow> real list" where
  "numbers [] = []"
| "numbers (NaN # xs) = numbers xs"
| "numbers (Num v # xs) = v # numbers xs"

definition dropna :: "series \<Rightarrow> series" where
  "dropna xs = map Num (numbers xs)"

definition isnull_sum :: "series \<Rightarrow> nat" where
  "isnull_sum xs = length (filter (\<lambda>x. x = NaN) xs)"

definition count :: "series \<Rightarrow> nat" where
  "count xs = length (numbers xs)"

definition nunique :: "series \<Rightarrow> nat" where
  "nunique xs = length (remdups (numbers xs))"

definition mean :: "series \<Rightarrow> cell" where
  "mean xs =
     (let vs = numbers xs
      in if vs = [] then NaN else Num (sum_list vs / real (length vs)))"

definition series_sum :: "series \<Rightarrow> cell" where
  "series_sum xs = Num (sum_list (numbers xs))"

definition series_min :: "series \<Rightarrow> cell" where
  "series_min xs =
     (case numbers xs of [] \<Rightarrow> NaN | v # vs \<Rightarrow> Num (fold min vs v))"

definition series_max :: "series \<Rightarrow> cell" where
  "series_max xs =
     (case numbers xs of [] \<Rightarrow> NaN | v # vs \<Rightarrow> Num (fold max vs v))"

definition median :: "series \<Rightarrow> cell" where
  "median xs =
     (let vs = sort (numbers xs); n = length vs
      in if n = 0 then NaN
         else if odd n then Num (vs ! (n div 2))
         else Num ((vs ! (n div 2 - 1) + vs ! (n div 2)) / 2))"

text \<open>The sample standard deviation (\<^verbatim>\<open>ddof=1\<close>): NaN below two numbers.\<close>

definition std :: "series \<Rightarrow> cell" where
  "std xs =
     (let vs = numbers xs; n = length vs; m = sum_list vs / real n
      in if n < 2 then NaN
         else Num (sqrt (sum_list (map (\<lambda>v. (v - m)\<^sup>2) vs) / real (n - 1))))"

text \<open>Arithmetic and comparison of cells: NaN propagates, and NaN equals nothing.\<close>

fun csub :: "cell \<Rightarrow> cell \<Rightarrow> cell" where
  "csub (Num a) (Num b) = Num (a - b)"
| "csub _ _ = NaN"

fun ceq :: "cell \<Rightarrow> cell \<Rightarrow> bool" where
  "ceq (Num a) (Num b) = (a = b)"
| "ceq _ _ = False"

definition series_sub :: "series \<Rightarrow> series \<Rightarrow> series" where
  "series_sub xs ys = map2 csub xs ys"

text \<open>\<^verbatim>\<open>s.iloc[0]\<close>: IndexError on an empty series.\<close>

definition iloc0 :: "series \<Rightarrow> (cell \<Rightarrow> 'a io) \<Rightarrow> 'a io" where
  "iloc0 xs k w = (case xs of [] \<Rightarrow> (w, Inl IndexError) | x # _ \<Rightarrow> k x w)"

section \<open>The loader (load\_data.py)\<close>

record loader =
  data_path :: path
  book_train_path :: path
  book_test_path :: path
  trade_train_path :: path
  trade_test_path :: path
  train_csv_path :: path
  test_csv_path :: path

definition DataLoader :: "path \<Rightarrow> loader" where
  "DataLoader p =
     \<lparr>data_path = p,
      book_train_path = joinpath p ''book_train.parquet'',
      book_test_path = joinpath p ''book_test.parquet'',
      trade_train_path = joinpath p ''trade_train.parquet'',
      trade_test_path = joinpath p ''trade_test.parquet'',
      train_csv_path = joinpath p ''train.csv'',
      test_csv_path = joinpath p ''test.csv''\<rparr>"

text \<open>
  \<^verbatim>\<open>check_files_exist\<close>: the loop over the six named paths, filling the dictionary
  \<^verbatim>\<open>files_status\<close> and printing one line per path.
\<close>

fun check_loop ::
  "filesystem \<Rightarrow> (string \<times> path) list \<Rightarrow> (string \<times> bool) list \<Rightarrow> world
     \<Rightarrow> (string \<times> bool) list \<times> world" where
  "check_loop fs [] files_status w = (files_status, w)"
| "check_loop fs ((name, p) # rest) files_status w =
     check_loop fs rest
       (AList.update name (path_exists fs p) files_status)
       (say 39 [Str name, B (path_exists fs p), Str p] w)"

definition check_files_exist :: "filesystem \<Rightarrow> loader \<Rightarrow> (string \<times> bool) list io" where
  "check_files_exist fs self w =
     (case check_loop fs
        [(''book_train'', book_train_path self),
         (''book_test'', book_test_path self),
         (''trade_train'', trade_train_path self),
         (''trade_test'', trade_test_path self),
         (''train_csv'', train_csv_path self),
         (''test_csv'', test_csv_path self)] [] w of
        (files_status, w') \<Rightarrow> (w', Inr files_status))"

text \<open>
  \<^verbatim>\<open>explore_parquet_structure\<close>. When \<^verbatim>\<open>pq.ParquetFile\<close> raises, the handler prints
  the error and the function goes on to \<^verbatim>\<open>return parquet_file\<close>, a local that was
  never bound.
\<close>

definition explore_parquet_structure :: "filesystem \<Rightarrow> path \<Rightarrow> parquet_file option io" where
  "explore_parquet_structure fs parquet_path w =
     (case fs parquet_path of
        None \<Rightarrow> (say 45 [Str parquet_path] w, Inr None)
      | Some f \<Rightarrow>
          (let w1 = say 48 [Str (path_name parquet_path)] w
           in case ParquetFile f of
                Inl msg \<Rightarrow> (say 62 [Str msg] w1, Inl (UnboundLocalError ''parquet_file''))
              | Inr pf \<Rightarrow>
                  (let w2 = say 55 [Strs (schema pf)] (say 54 [N (num_row_groups pf)] w1);
                       w3 = (if pandas_metadata pf then say 59 [] w2 else w2)
                   in (w3, Inr (Some pf)))))"

text \<open>\<^verbatim>\<open>load_sample_data\<close>, lines 69 to 78: the file for a kind and a split.\<close>

definition select_file_path :: "loader \<Rightarrow> string \<Rightarrow> string \<Rightarrow> error + path" where
  "select_file_path self file_type split =
     (if file_type = ''book'' \<and> split = ''train'' then Inr (book_train_path self)
      else if file_type = ''book'' \<and> split = ''test'' then Inr (book_test_path self)
      else if file_type = ''trade'' \<and> split = ''train'' then Inr (trade_train_path self)
      else if file_type = ''trade'' \<and> split = ''test'' then Inr (trade_test_path self)
      else Inl ValueError)"

definition load_sample_data ::
  "filesystem \<Rightarrow> loader \<Rightarrow> string \<Rightarrow> string \<Rightarrow> int \<Rightarrow> table option io" where
  "load_sample_data fs self file_type split n w =
     (case select_file_path self file_type split of
        Inl e \<Rightarrow> (w, Inl e)
      | Inr file_path \<Rightarrow>
          (case fs file_path of
             None \<Rightarrow> (say 81 [Str file_path] w, Inr None)
           | Some f \<Rightarrow>
               (let w1 = say 84 [Str (path_name file_path)] w
                in case read_parquet f of
                     Inl msg \<Rightarrow> (say 99 [Str msg] w1, Inr None)
                   | Inr df \<Rightarrow>
                       (if int (nrows df) > n
                        then (let df' = head n df
                              in (say 92 [I n, N (nrows df')] w1, Inr (Some df')))
                        else (say 94 [N (nrows df)] w1, Inr (Some df))))))"

text \<open>\<^verbatim>\<open>load_train_targets\<close>: \<^verbatim>\<open>pd.read_csv\<close> is called outside any handler.\<close>

definition load_train_targets :: "filesystem \<Rightarrow> loader \<Rightarrow> table option io" where
  "load_train_targets fs self w =
     (case fs (train_csv_path self) of
        None \<Rightarrow> (say 105 [Str (train_csv_path self)] w, Inr None)
      | Some f \<Rightarrow>
          (let w1 = say 108 [] w
           in case read_csv f of
                Inl msg \<Rightarrow> (w1, Inl (Raised msg))
              | Inr df \<Rightarrow> (say 110 [N (nrows df), N (length (cols df))] w1, Inr (Some df))))"

text \<open>
  \<^verbatim>\<open>basic_exploration\<close>. \<^verbatim>\<open>df.describe()\<close> raises ValueError on a frame without
  columns; the three specific blocks read a column only after testing that it is there.
\<close>

definition explore_column ::
  "table \<Rightarrow> string \<Rightarrow> (series \<Rightarrow> unit io) \<Rightarrow> unit io" where
  "explore_column df c k =
     (if c \<in> set (columns df) then getitem df c k else return_io ())"

definition basic_exploration :: "ref option \<Rightarrow> string \<Rightarrow> unit io" where
  "basic_exploration df_ref data_name =
     (case df_ref of
        None \<Rightarrow> return_io ()
      | Some r \<Rightarrow>
          deref r (\<lambda>df. seq_io
            [print_io 118 [Str data_name],
             print_io 119 [N (nrows df), N (length (cols df))],
             print_io 120 [Strs (columns df)],
             print_io 121 [],
             print_io 122 [Lib ''dtypes'' [T df]],
             print_io 123 [],
             print_io 124 [T (head 5 df)],
             print_io 125 [],
             print_io 126 [Counts (map (\<lambda>(c, xs). (c, isnull_sum xs)) (cols df))],
             print_io 127 [],
             (if cols df = [] then raise_io ValueError
              else print_io 128 [Lib ''describe'' [T df]]),
             explore_column df ''stock_id'' (\<lambda>s. seq_io
               [print_io 132 [N (nunique s)],
                print_io 133 [Lib ''sorted'' [S (remdups s)]]]),
             explore_column df ''time_id'' (\<lambda>s. seq_io
               [print_io 136 [N (nunique s)],
                print_io 137 [R (series_min s), R (series_max s)]]),
             explore_column df ''seconds_in_bucket'' (\<lambda>s.
               print_io 140 [R (series_min s), R (series_max s)])]))"

section \<open>The visualizer (visualize\_data.py)\<close>

subsection \<open>Further pandas operations\<close>

text \<open>
  \<^verbatim>\<open>s.value_counts().index\<close>: the distinct numbers of a series, the most frequent
  first; equal counts are kept here in the order of first appearance.
\<close>

definition value_counts_index :: "series \<Rightarrow> real list" where
  "value_counts_index xs =
     (let vs = numbers xs
      in sort_key (\<lambda>v. - int (count_list vs v)) (rev (remdups (rev vs))))"

definition isin :: "series \<Rightarrow> real list \<Rightarrow> bool list" where
  "isin xs vals = map (\<lambda>x. case x of NaN \<Rightarrow> False | Num v \<Rightarrow> v \<in> set vals) xs"

text \<open>\<^verbatim>\<open>df[names]\<close> for names that are all columns of the frame.\<close>

definition select_columns :: "table \<Rightarrow> string list \<Rightarrow> table" where
  "select_columns df names =
     \<lparr>nrows = nrows df,
      cols = List.map_filter (\<lambda>c. map_option (Pair c) (map_of (cols df) c)) names\<rparr>"

text \<open>
  \<^verbatim>\<open>df.groupby(key).agg(mean)\<close> for one column: the distinct keys in ascending order
  (rows with a NaN key belong to no group), each with the mean of its rows.
\<close>

definition groupby_mean :: "series \<Rightarrow> series \<Rightarrow> (real \<times> cell) list" where
  "groupby_mean keys xs =
     map (\<lambda>k. (k, mean (map snd (filter (\<lambda>(key, x). ceq key (Num k)) (zip keys xs)))))
       (sort (remdups (numbers keys)))"

definition series_div :: "series \<Rightarrow> real \<Rightarrow> series" where
  "series_div xs d = map (\<lambda>x. case x of NaN \<Rightarrow> NaN | Num v \<Rightarrow> Num (v / d)) xs"

subsection \<open>plot\_target\_distribution\<close>

definition target_panels :: "ref \<Rightarrow> unit io list" where
  "target_panels r =
     [draw ''plt.subplots'' [N 2, N 2],
      deref r (\<lambda>df. getitem df ''target'' (\<lambda>t. draw ''axes[0,0].hist'' [S t])),
      deref r (\<lambda>df. getitem df ''target'' (\<lambda>t.
        draw ''axes[0,1].hist'' [Lib ''log1p'' [S t]])),
      deref r (\<lambda>df. getitem df ''stock_id'' (\<lambda>sid.
        (let top_stocks = take 10 (value_counts_index sid);
             top_data = filter_rows df (isin sid top_stocks)
         in draw ''sns.boxplot'' [T top_data]))),
      deref r (\<lambda>df. getitem df ''target'' (\<lambda>t.
        getitem df ''stock_id'' (\<lambda>sid. getitem df ''time_id'' (\<lambda>tid.
          draw ''axes[1,1].text''
            [N (count t), R (mean t), R (std t), R (series_min t), R (series_max t),
             Lib ''skew'' [S t], Lib ''kurtosis'' [S t],
             N (nunique sid), N (nunique tid)])))),
      draw ''plt.show'' []]"

definition plot_target_distribution :: "ref option \<Rightarrow> unit io" where
  "plot_target_distribution targets_df =
     (case targets_df of
        None \<Rightarrow> print_io 10 []
      | Some r \<Rightarrow>
          deref r (\<lambda>df.
            if ''target'' \<notin> set (columns df) then print_io 10 []
            else seq_io (target_panels r)))"

subsection \<open>plot\_book\_analysis\<close>

text \<open>Line 69: the spread is stored as a new column of the frame that was passed in.\<close>

definition book_spread :: "ref \<Rightarrow> unit io" where
  "book_spread r =
     deref r (\<lambda>df. getitem df ''ask_price1'' (\<lambda>ask. getitem df ''bid_price1'' (\<lambda>bid.
       setitem r ''spread_1'' (series_sub ask bid))))"

definition book_spread_hist :: "ref \<Rightarrow> unit io" where
  "book_spread_hist r =
     deref r (\<lambda>df. getitem df ''spread_1'' (\<lambda>sp. draw ''axes[0,0].hist'' [S (dropna sp)]))"

definition book_price_evolution :: "ref \<Rightarrow> unit io" where
  "book_price_evolution r =
     deref r (\<lambda>df.
       if ''stock_id'' \<in> set (columns df)
       then getitem df ''stock_id'' (\<lambda>sid.
         if nunique sid > 0
         then iloc0 sid (\<lambda>sample_stock.
           (let stock_data = head 1000 (filter_rows df (map (\<lambda>x. ceq x sample_stock) sid))
            in seq_io
              [getitem stock_data ''seconds_in_bucket'' (\<lambda>sec.
                 getitem stock_data ''bid_price1'' (\<lambda>bid.
                   draw ''axes[0,1].plot'' [S sec, S bid])),
               getitem stock_data ''seconds_in_bucket'' (\<lambda>sec.
                 getitem stock_data ''ask_price1'' (\<lambda>ask.
                   draw ''axes[0,1].plot'' [S sec, S ask]))]))
         else return_io ())
       else return_io ())"

definition book_sizes :: "ref \<Rightarrow> unit io" where
  "book_sizes r =
     deref r (\<lambda>df. getitem df ''bid_size1'' (\<lambda>bsz. getitem df ''ask_size1'' (\<lambda>asz.
       draw ''axes[0,2].scatter'' [S bsz, S asz])))"

definition book_seconds :: "ref \<Rightarrow> unit io" where
  "book_seconds r =
     deref r (\<lambda>df. getitem df ''seconds_in_bucket'' (\<lambda>sec. draw ''axes[1,0].hist'' [S sec]))"

definition book_correlation :: "ref \<Rightarrow> unit io" where
  "book_correlation r =
     deref r (\<lambda>df.
       (let price_cols = [''bid_price1'', ''bid_price2'', ''ask_price1'', ''ask_price2''];
            available_price_cols = filter (\<lambda>c. c \<in> set (columns df)) price_cols
        in if length available_price_cols > 1
           then draw ''sns.heatmap'' [Lib ''corr'' [T (select_columns df available_price_cols)]]
           else return_io ()))"

definition book_time_stats :: "ref \<Rightarrow> unit io" where
  "book_time_stats r =
     deref r (\<lambda>df.
       if ''time_id'' \<in> set (columns df)
       then getitem df ''time_id'' (\<lambda>tid. getitem df ''spread_1'' (\<lambda>sp.
              getitem df ''bid_size1'' (\<lambda>bsz. getitem df ''ask_size1'' (\<lambda>asz.
                (let time_stats = take 20 (groupby_mean tid sp)
                 in draw ''axes[1,2].plot''
                      [S (map (\<lambda>(k, m). Num k) time_stats), S (map snd time_stats)])))))
       else return_io ())"

definition book_panels :: "ref \<Rightarrow> unit io list" where
  "book_panels r =
     [book_spread_hist r, book_price_evolution r, book_sizes r, book_seconds r,
      book_correlation r, book_time_stats r, draw ''plt.show'' []]"

definition plot_book_analysis :: "ref option \<Rightarrow> unit io" where
  "plot_book_analysis book_df =
     (case book_df of
        None \<Rightarrow> print_io 62 []
      | Some r \<Rightarrow> seq_io (draw ''plt.subplots'' [N 2, N 3] # book_spread r # book_panels r))"

subsection \<open>plot\_trade\_analysis\<close>

definition trade_in_time :: "ref \<Rightarrow> unit io" where
  "trade_in_time r =
     deref r (\<lambda>df.
       if ''stock_id'' \<in> set (columns df)
       then getitem df ''stock_id'' (\<lambda>sid.
         if nunique sid > 0
         then iloc0 sid (\<lambda>sample_stock.
           (let stock_trades = head 500 (filter_rows df (map (\<lambda>x. ceq x sample_stock) sid))
            in getitem stock_trades ''seconds_in_bucket'' (\<lambda>sec.
                 getitem stock_trades ''price'' (\<lambda>price.
                   getitem stock_trades ''size'' (\<lambda>size.
                     draw ''axes[1,1].scatter'' [S sec, S price, S (series_div size 10)])))))
         else return_io ())
       else return_io ())"

definition trade_panels :: "ref \<Rightarrow> unit io list" where
  "trade_panels r =
     [draw ''plt.subplots'' [N 2, N 2],
      deref r (\<lambda>df. getitem df ''size'' (\<lambda>size. draw ''axes[0,0].hist'' [S size])),
      deref r (\<lambda>df. getitem df ''order_count'' (\<lambda>oc. draw ''axes[0,1].hist'' [S oc])),
      deref r (\<lambda>df. getitem df ''size'' (\<lambda>size. getitem df ''price'' (\<lambda>price.
        draw ''axes[1,0].scatter'' [S size, S price]))),
      trade_in_time r,
      draw ''plt.show'' []]"

definition plot_trade_analysis :: "ref option \<Rightarrow> unit io" where
  "plot_trade_analysis trade_df =
     (case trade_df of
        None \<Rightarrow> print_io 131 []
      | Some r \<Rightarrow> seq_io (trade_panels r))"

subsection \<open>generate\_summary\_report\<close>

text \<open>
  An f-string evaluates its fields before the line is printed, so a missing column
  raises KeyError in place of the line.
\<close>

definition report_targets :: "ref option \<Rightarrow> unit io list" where
  "report_targets target_data =
     (case target_data of
        None \<Rightarrow> []
      | Some r \<Rightarrow>
          [print_io 183 [],
           deref r (\<lambda>df. print_io 184 [N (nrows df)]),
           deref r (\<lambda>df. getitem df ''stock_id'' (\<lambda>s. print_io 185 [N (nunique s)])),
           deref r (\<lambda>df. getitem df ''time_id'' (\<lambda>s. print_io 186 [N (nunique s)])),
           deref r (\<lambda>df. getitem df ''target'' (\<lambda>s. print_io 187 [R (mean s)])),
           deref r (\<lambda>df. getitem df ''target'' (\<lambda>s. print_io 188 [R (median s)])),
           deref r (\<lambda>df. getitem df ''target'' (\<lambda>s. print_io 189 [R (std s)]))])"

definition report_book :: "ref option \<Rightarrow> unit io list" where
  "report_book book_data =
     (case book_data of
        None \<Rightarrow> []
      | Some r \<Rightarrow>
          [print_io 192 [],
           deref r (\<lambda>df. print_io 193 [N (nrows df)]),
           deref r (\<lambda>df. getitem df ''stock_id'' (\<lambda>s. print_io 194 [N (nunique s)])),
           deref r (\<lambda>df. getitem df ''seconds_in_bucket'' (\<lambda>s.
             print_io 195 [R (series_max s)])),
           deref r (\<lambda>df. getitem df ''ask_price1'' (\<lambda>ask. getitem df ''bid_price1'' (\<lambda>bid.
             (let spread_mean = mean (series_sub ask bid)
              in print_io 197 [R spread_mean]))))])"

definition report_trades :: "ref option \<Rightarrow> unit io list" where
  "report_trades trade_data =
     (case trade_data of
        None \<Rightarrow> []
      | Some r \<Rightarrow>
          [print_io 200 [],
           deref r (\<lambda>df. print_io 201 [N (nrows df)]),
           deref r (\<lambda>df. getitem df ''stock_id'' (\<lambda>s. print_io 202 [N (nunique s)])),
           deref r (\<lambda>df. getitem df ''size'' (\<lambda>s. print_io 203 [R (mean s)])),
           deref r (\<lambda>df. getitem df ''size'' (\<lambda>s. print_io 204 [R (series_sum s)])),
           deref r (\<lambda>df. getitem df ''order_count'' (\<lambda>s. print_io 205 [R (mean s)]))])"

definition report_header :: "ref option \<Rightarrow> ref option \<Rightarrow> ref option \<Rightarrow> unit io list" where
  "report_header book_data trade_data target_data =
     [print_io 173 [], print_io 174 [], print_io 175 [], print_io 177 [],
      print_io 178 [B (book_data \<noteq> None)],
      print_io 179 [B (trade_data \<noteq> None)],
      print_io 180 [B (target_data \<noteq> None)]]"

definition report_footer :: "unit io list" where
  "report_footer =
     [print_io 207 [], print_io 208 [], print_io 209 [], print_io 210 [],
      print_io 211 [], print_io 212 [], print_io 214 []]"

text \<open>The first parameter of the Python, \<^verbatim>\<open>loader\<close>, is never used.\<close>

definition generate_summary_report ::
  "loader \<Rightarrow> ref option \<Rightarrow> ref option \<Rightarrow> ref option \<Rightarrow> unit io" where
  "generate_summary_report ldr book_data trade_data target_data =
     seq_io (report_header book_data trade_data target_data
             @ report_targets target_data
             @ report_book book_data
             @ report_trades trade_data
             @ report_footer)"

section \<open>Example inputs\<close>

text \<open>
  The invariant of a DataFrame: every column has one cell per row of the index.
\<close>

definition wf_table :: "table \<Rightarrow> bool" where
  "wf_table df = list_all (\<lambda>(c, xs). length xs = nrows df) (cols df)"

definition empty_table :: table where
  "empty_table = \<lparr>nrows = 0, cols = []\<rparr>"

definition fresh_world :: world where
  "fresh_world = \<lparr>console = [], canvas = [], objs = (\<lambda>r. empty_table)\<rparr>"

definition default_loader :: loader where
  "default_loader = DataLoader ''./raw_data''"

definition no_files :: filesystem where
  "no_files = (\<lambda>p. None)"

text \<open>A three-row book file and a file no reader can open.\<close>

definition book3 :: table where
  "book3 =
     \<lparr>nrows = 3,
      cols = [(''stock_id'', [Num 0, Num 0, Num 1]),
              (''time_id'', [Num 5, Num 5, Num 11]),
              (''seconds_in_bucket'', [Num 0, Num 1, Num 0]),
              (''bid_price1'', [Num 100, Num 1, Num 2]),
              (''ask_price1'', [Num (201 / 2), Num 3, NaN]),
              (''bid_size1'', [Num 10, Num 20, Num 30]),
              (''ask_size1'', [Num 7, Num 8, Num 9])]\<rparr>"

definition book3_file :: disk_file where
  "book3_file =
     \<lparr>ParquetFile = Inr \<lparr>num_row_groups = 1, schema = columns book3, pandas_metadata = True\<rparr>,
      read_parquet = Inr book3,
      read_csv = Inl ''not a csv file''\<rparr>"

definition broken_file :: disk_file where
  "broken_file =
     \<lparr>ParquetFile = Inl ''bad magic'',
      read_parquet = Inl ''bad magic'',
      read_csv = Inl ''bad magic''\<rparr>"

text \<open>The label table of three rows: two stocks, two time buckets.\<close>

definition targets3 :: table where
  "targets3 =
     \<lparr>nrows = 3,
      cols = [(''stock_id'', [Num 1, Num 1, Num 2]),
              (''time_id'', [Num 1, Num 2, Num 1]),
              (''target'', [Num (1 / 100), Num (2 / 100), Num (3 / 100)])]\<rparr>"

definition targets3_file :: disk_file where
  "targets3_file =
     \<lparr>ParquetFile = Inl ''not a parquet file'',
      read_parquet = Inl ''not a parquet file'',
      read_csv = Inr targets3\<rparr>"

definition some_files :: filesystem where
  "some_files =
     (\<lambda>p. if p = ''./raw_data/book_train.parquet'' then Some book3_file
          else if p = ''./raw_data/trade_train.parquet'' then Some broken_file
          else if p = ''./raw_data/train.csv'' then Some targets3_file
          else None)"


text \<open>
  A trade table without the column \<open>size\<close>, a label table with its three columns and
  no row, and a book table with the five columns every panel needs and no other.
\<close>

definition trades_no_size :: table where
  "trades_no_size =
     \<lparr>nrows = 2,
      cols = [(''stock_id'', [Num 0, Num 0]),
              (''seconds_in_bucket'', [Num 3, Num 8]),
              (''price'', [Num 1, Num (1001 / 1000)]),
              (''order_count'', [Num 2, Num 5])]\<rparr>"

definition targets0 :: table where
  "targets0 =
     \<lparr>nrows = 0,
      cols = [(''stock_id'', []), (''time_id'', []), (''target'', [])]\<rparr>"

definition book1 :: table where
  "book1 =
     \<lparr>nrows = 1,
      cols = [(''seconds_in_bucket'', [Num 0]),
              (''bid_price1'', [Num 100]),
              (''ask_price1'', [Num (201 / 2)]),
              (''bid_size1'', [Num 10]),
              (''ask_size1'', [Num 7])]\<rparr>"




text \<open>A state in which nothing was printed or drawn and every reference is the table.\<close>

definition world_of :: "table \<Rightarrow> world" where
  "world_of df = \<lparr>console = [], canvas = [], objs = (\<lambda>r. df)\<rparr>"

section \<open>Properties of the loader\<close>

text \<open>
  C9. For each of the six configured paths, the dictionary \<^verbatim>\<open>check_files_exist\<close>
  returns holds, under the path's name, exactly whether the path exists in the
  filesystem the call runs on; and the call raises nothing.
\<close>

theorem check_files_exist_reports_existence:
  "\<exists>w' st. check_files_exist fs self w = (w', Inr st)
     \<and> map_of st ''book_train'' = Some (fs (book_train_path self) \<noteq> None)
     \<and> map_of st ''book_test'' = Some (fs (book_test_path self) \<noteq> None)
     \<and> map_of st ''trade_train'' = Some (fs (trade_train_path self) \<noteq> None)
     \<and> map_of st ''trade_test'' = Some (fs (trade_test_path self) \<noteq> None)
     \<and> map_of st ''train_csv'' = Some (fs (train_csv_path self) \<noteq> None)
     \<and> map_of st ''test_csv'' = Some (fs (test_csv_path self) \<noteq> None)"
  by (simp add: check_files_exist_def path_exists_def)

text \<open>
  C10. On an absent table \<^verbatim>\<open>basic_exploration\<close> returns at once, for every label:
  nothing is printed, nothing is drawn, no object changes and nothing is raised.
\<close>

theorem basic_exploration_None_silent:
  "basic_exploration None data_name w = (w, Inr ())"
  by (simp add: basic_exploration_def return_io_def)

lemma select_file_path_valid:
  assumes "file_type = ''book'' \<or> file_type = ''trade''"
    and "split = ''train'' \<or> split = ''test''"
  shows "\<exists>p. select_file_path self file_type split = Inr p"
  using assms by (auto simp: select_file_path_def)

lemma load_sample_data_loaded:
  assumes "select_file_path self file_type split = Inr p"
    and "fs p = Some f" and "read_parquet f = Inr df"
  shows "snd (load_sample_data fs self file_type split n w) =
           Inr (Some (if n < int (nrows df) then head n df else df))"
  using assms by (simp add: load_sample_data_def Let_def)

text \<open>
  C2. For a kind in book, trade, a split in train, test and a positive \<open>n\<close>: when the
  selected file exists and \<^verbatim>\<open>pd.read_parquet\<close> loads it, \<^verbatim>\<open>load_sample_data\<close>
  returns a table of at most \<open>n\<close> rows; a file of more than \<open>n\<close> rows is cut to its
  first \<open>n\<close> rows, and any other file is returned whole.
\<close>

theorem load_sample_data_at_most_n_rows:
  assumes "file_type = ''book'' \<or> file_type = ''trade''"
    and "split = ''train'' \<or> split = ''test''"
    and "0 < n"
  shows "\<exists>p. select_file_path self file_type split = Inr p \<and>
           (\<forall>f df. fs p = Some f \<longrightarrow> read_parquet f = Inr df \<longrightarrow>
              (\<exists>res. snd (load_sample_data fs self file_type split n w) = Inr (Some res)
                 \<and> int (nrows res) \<le> n
                 \<and> (n < int (nrows df) \<longrightarrow>
                      res = \<lparr>nrows = nat n,
                             cols = map (\<lambda>(c, xs). (c, take (nat n) xs)) (cols df)\<rparr>)
                 \<and> (int (nrows df) \<le> n \<longrightarrow> res = df)))"
proof -
  obtain p where p: "select_file_path self file_type split = Inr p"
    using select_file_path_valid [OF assms(1,2)] by blast
  have "\<exists>res. snd (load_sample_data fs self file_type split n w) = Inr (Some res)
          \<and> int (nrows res) \<le> n
          \<and> (n < int (nrows df) \<longrightarrow>
               res = \<lparr>nrows = nat n,
                      cols = map (\<lambda>(c, xs). (c, take (nat n) xs)) (cols df)\<rparr>)
          \<and> (int (nrows df) \<le> n \<longrightarrow> res = df)"
    if "fs p = Some f" and "read_parquet f = Inr df" for f df
  proof (cases "n < int (nrows df)")
    case True
    then have "min (nat n) (nrows df) = nat n" using assms(3) by linarith
    then have "head n df =
        \<lparr>nrows = nat n, cols = map (\<lambda>(c, xs). (c, take (nat n) xs)) (cols df)\<rparr>"
      using assms(3) by (simp add: head_def Let_def)
    then show ?thesis
      using load_sample_data_loaded [where fs = fs and n = n and w = w, OF p that] True assms(3) by simp
  next
    case False
    then show ?thesis
      using load_sample_data_loaded [where fs = fs and n = n and w = w, OF p that] by simp
  qed
  then show ?thesis using p by blast
qed

theorem load_sample_data_at_most_n_rows_witness:
  "snd (load_sample_data some_files default_loader ''book'' ''train'' 2 fresh_world) =
     Inr (Some \<lparr>nrows = 2,
                cols = [(''stock_id'', [Num 0, Num 0]),
                        (''time_id'', [Num 5, Num 5]),
                        (''seconds_in_bucket'', [Num 0, Num 1]),
                        (''bid_price1'', [Num 100, Num 1]),
                        (''ask_price1'', [Num (201 / 2), Num 3]),
                        (''bid_size1'', [Num 10, Num 20]),
                        (''ask_size1'', [Num 7, Num 8])]\<rparr>)"
proof -
  have k: "''book'' = ''book'' \<or> ''book'' = ''trade''" by simp
  have s: "''train'' = ''train'' \<or> ''train'' = ''test''" by simp
  have n: "(0::int) < 2" by simp
  have p: "select_file_path default_loader ''book'' ''train'' = Inr ''./raw_data/book_train.parquet''"
    by (simp add: select_file_path_def default_loader_def DataLoader_def joinpath_def)
  have f: "some_files ''./raw_data/book_train.parquet'' = Some book3_file"
    by (simp add: some_files_def)
  have d: "read_parquet book3_file = Inr book3"
    by (simp add: book3_file_def)
  have m: "(2::int) < int (nrows book3)"
    by (simp add: book3_def)
  from load_sample_data_at_most_n_rows [OF k s n, of default_loader some_files fresh_world]
  obtain res where
    "snd (load_sample_data some_files default_loader ''book'' ''train'' 2 fresh_world) = Inr (Some res)"
    and "res = \<lparr>nrows = nat 2, cols = map (\<lambda>(c, xs). (c, take (nat 2) xs)) (cols book3)\<rparr>"
    using p f d m by auto
  then show ?thesis
    by (simp add: book3_def numeral_2_eq_2)
qed

text \<open>
  C6. For a kind in book, trade and a split in train, test: when the selected file exists
  and loads with \<open>T\<close> rows and the bound \<open>n\<close> is at least \<open>T\<close>, \<^verbatim>\<open>load_sample_data\<close>
  returns the very table the reader produced; and cutting a well-formed table (the
  label table as well) to \<open>n\<close> rows with \<^verbatim>\<open>head\<close> leaves it as it is.
\<close>

theorem load_sample_data_large_bound_identity:
  assumes "file_type = ''book'' \<or> file_type = ''trade''"
    and "split = ''train'' \<or> split = ''test''"
  shows "\<exists>p. select_file_path self file_type split = Inr p \<and>
           (\<forall>f df. fs p = Some f \<longrightarrow> read_parquet f = Inr df \<longrightarrow> int (nrows df) \<le> n \<longrightarrow>
              snd (load_sample_data fs self file_type split n w) = Inr (Some df)
              \<and> (wf_table df \<longrightarrow> head n df = df))"
proof -
  obtain p where p: "select_file_path self file_type split = Inr p"
    using select_file_path_valid [OF assms] by blast
  have "head n df = df" if "wf_table df" and "int (nrows df) \<le> n" for df :: table
  proof -
    have "map (\<lambda>(c, xs). (c, take (nrows df) xs)) (cols df) = cols df"
      using that(1) unfolding wf_table_def list_all_iff
      by (intro map_idI) auto
    moreover have "0 \<le> n" and "min (nat n) (nrows df) = nrows df"
      using that(2) by linarith+
    ultimately show ?thesis by (simp add: head_def Let_def)
  qed
  then show ?thesis
    using p load_sample_data_loaded [where fs = fs and n = n and w = w, OF p] by auto
qed

theorem load_sample_data_large_bound_identity_witness:
  "snd (load_sample_data some_files default_loader ''book'' ''train'' 3 fresh_world) = Inr (Some book3)
   \<and> head 3 book3 = book3"
proof -
  have k: "''book'' = ''book'' \<or> ''book'' = ''trade''" by simp
  have s: "''train'' = ''train'' \<or> ''train'' = ''test''" by simp
  have p: "select_file_path default_loader ''book'' ''train'' = Inr ''./raw_data/book_train.parquet''"
    by (simp add: select_file_path_def default_loader_def DataLoader_def joinpath_def)
  have f: "some_files ''./raw_data/book_train.parquet'' = Some book3_file"
    by (simp add: some_files_def)
  have d: "read_parquet book3_file = Inr book3"
    by (simp add: book3_file_def)
  have m: "int (nrows book3) \<le> 3"
    by (simp add: book3_def)
  have wf: "wf_table book3"
    by (simp add: wf_table_def book3_def)
  from load_sample_data_large_bound_identity [OF k s, of default_loader some_files 3 fresh_world]
  show ?thesis
    using p f d m wf by auto
qed

text \<open>
  C1, as the code has it. The claim that no loader operation ever raises fails:
  \<^verbatim>\<open>load_sample_data\<close> raises ValueError, by an explicit \<^verbatim>\<open>raise\<close>, for a kind or
  a split it does not know.
\<close>

theorem load_sample_data_unknown_kind_raises:
  "snd (load_sample_data no_files default_loader ''quote'' ''train'' 10000 fresh_world)
     = Inl ValueError"
  by (simp add: load_sample_data_def select_file_path_def)

lemma check_loop_total: "\<exists>st w'. check_loop fs ps st0 w = (st, w')"
  by simp

lemma load_sample_data_missing:
  assumes "select_file_path self file_type split = Inr p" and "fs p = None"
  shows "load_sample_data fs self file_type split n w = (say 81 [Str p] w, Inr None)"
  using assms by (simp add: load_sample_data_def)

lemma load_sample_data_read_error:
  assumes "select_file_path self file_type split = Inr p"
    and "fs p = Some f" and "read_parquet f = Inl msg"
  shows "load_sample_data fs self file_type split n w =
           (say 99 [Str msg] (say 84 [Str (path_name p)] w), Inr None)"
  using assms by (simp add: load_sample_data_def Let_def)

lemma load_sample_data_returns:
  assumes "select_file_path self file_type split = Inr p"
  shows "\<exists>w' res. load_sample_data fs self file_type split n w = (w', Inr res)"
  using assms
  by (simp add: load_sample_data_def Let_def split: option.split sum.split)

lemma load_sample_data_invalid:
  assumes "\<not> ((file_type = ''book'' \<or> file_type = ''trade'')
              \<and> (split = ''train'' \<or> split = ''test''))"
  shows "load_sample_data fs self file_type split n w = (w, Inl ValueError)"
proof -
  have "select_file_path self file_type split = Inl ValueError"
    using assms by (auto simp: select_file_path_def)
  then show ?thesis by (simp add: load_sample_data_def)
qed

text \<open>
  C1, amended. For every filesystem state: \<^verbatim>\<open>check_files_exist\<close> raises nothing.
  \<^verbatim>\<open>load_sample_data\<close> with a kind in book, trade and a split in train, test raises
  nothing: a missing file, and a file the reader fails on, each print a message and give
  the absent result; with any other kind or split it raises ValueError.
  \<^verbatim>\<open>explore_parquet_structure\<close> and \<^verbatim>\<open>load_train_targets\<close> on a missing file print
  a message and return the absent result, and on a file their reader opens they return
  the handle, respectively the table.
\<close>

theorem loader_failure_semantics:
  "(\<exists>w' st. check_files_exist fs self w = (w', Inr st))
   \<and> ((file_type = ''book'' \<or> file_type = ''trade'') \<and> (split = ''train'' \<or> split = ''test'') \<longrightarrow>
        (\<exists>p. select_file_path self file_type split = Inr p
           \<and> (\<exists>w' res. load_sample_data fs self file_type split n w = (w', Inr res))
           \<and> (fs p = None \<longrightarrow>
                load_sample_data fs self file_type split n w = (say 81 [Str p] w, Inr None))
           \<and> (\<forall>f msg. fs p = Some f \<longrightarrow> read_parquet f = Inl msg \<longrightarrow>
                load_sample_data fs self file_type split n w =
                  (say 99 [Str msg] (say 84 [Str (path_name p)] w), Inr None))))
   \<and> (\<not> ((file_type = ''book'' \<or> file_type = ''trade'') \<and> (split = ''train'' \<or> split = ''test'')) \<longrightarrow>
        load_sample_data fs self file_type split n w = (w, Inl ValueError))
   \<and> (fs q = None \<longrightarrow> explore_parquet_structure fs q w = (say 45 [Str q] w, Inr None))
   \<and> (\<forall>f pf. fs q = Some f \<longrightarrow> ParquetFile f = Inr pf \<longrightarrow>
        snd (explore_parquet_structure fs q w) = Inr (Some pf))
   \<and> (fs (train_csv_path self) = None \<longrightarrow>
        load_train_targets fs self w = (say 105 [Str (train_csv_path self)] w, Inr None))
   \<and> (\<forall>f df. fs (train_csv_path self) = Some f \<longrightarrow> read_csv f = Inr df \<longrightarrow>
        snd (load_train_targets fs self w) = Inr (Some df))"
proof (intro conjI impI allI)
  show "\<exists>w' st. check_files_exist fs self w = (w', Inr st)"
    by (simp add: check_files_exist_def)
next
  assume v: "(file_type = ''book'' \<or> file_type = ''trade'') \<and> (split = ''train'' \<or> split = ''test'')"
  then obtain p where p: "select_file_path self file_type split = Inr p"
    using select_file_path_valid by blast
  show "\<exists>p. select_file_path self file_type split = Inr p
           \<and> (\<exists>w' res. load_sample_data fs self file_type split n w = (w', Inr res))
           \<and> (fs p = None \<longrightarrow>
                load_sample_data fs self file_type split n w = (say 81 [Str p] w, Inr None))
           \<and> (\<forall>f msg. fs p = Some f \<longrightarrow> read_parquet f = Inl msg \<longrightarrow>
                load_sample_data fs self file_type split n w =
                  (say 99 [Str msg] (say 84 [Str (path_name p)] w), Inr None))"
  proof (intro exI [of _ p] conjI impI allI)
    show "select_file_path self file_type split = Inr p" by (rule p)
    show "\<exists>w' res. load_sample_data fs self file_type split n w = (w', Inr res)"
      by (rule load_sample_data_returns [OF p])
    show "load_sample_data fs self file_type split n w = (say 81 [Str p] w, Inr None)"
      if "fs p = None"
      using that by (rule load_sample_data_missing [OF p])
    show "load_sample_data fs self file_type split n w =
            (say 99 [Str msg] (say 84 [Str (path_name p)] w), Inr None)"
      if "fs p = Some f" and "read_parquet f = Inl msg" for f msg
      using that by (rule load_sample_data_read_error [OF p])
  qed
next
  assume "\<not> ((file_type = ''book'' \<or> file_type = ''trade'') \<and> (split = ''train'' \<or> split = ''test''))"
  then show "load_sample_data fs self file_type split n w = (w, Inl ValueError)"
    by (rule load_sample_data_invalid)
next
  assume "fs q = None"
  then show "explore_parquet_structure fs q w = (say 45 [Str q] w, Inr None)"
    by (simp add: explore_parquet_structure_def)
next
  fix f pf
  assume "fs q = Some f" and "ParquetFile f = Inr pf"
  then show "snd (explore_parquet_structure fs q w) = Inr (Some pf)"
    by (simp add: explore_parquet_structure_def Let_def)
next
  assume "fs (train_csv_path self) = None"
  then show "load_train_targets fs self w = (say 105 [Str (train_csv_path self)] w, Inr None)"
    by (simp add: load_train_targets_def)
next
  fix f df
  assume "fs (train_csv_path self) = Some f" and "read_csv f = Inr df"
  then show "snd (load_train_targets fs self w) = Inr (Some df)"
    by (simp add: load_train_targets_def Let_def)
qed

lemma default_loader_paths:
  "select_file_path default_loader ''trade'' ''train'' = Inr ''./raw_data/trade_train.parquet''"
  "select_file_path default_loader ''book'' ''test'' = Inr ''./raw_data/book_test.parquet''"
  "train_csv_path default_loader = ''./raw_data/train.csv''"
  by (simp_all add: select_file_path_def default_loader_def DataLoader_def joinpath_def)

theorem loader_failure_semantics_witness:
  "snd (load_sample_data some_files default_loader ''trade'' ''train'' 5000 fresh_world) = Inr None
   \<and> snd (load_sample_data some_files default_loader ''book'' ''test'' 5000 fresh_world) = Inr None
   \<and> snd (load_sample_data some_files default_loader ''book'' ''all'' 5000 fresh_world) = Inl ValueError
   \<and> snd (explore_parquet_structure some_files ''./raw_data/book_test.parquet'' fresh_world) = Inr None
   \<and> snd (explore_parquet_structure some_files ''./raw_data/book_train.parquet'' fresh_world)
       = Inr (Some \<lparr>num_row_groups = 1, schema = columns book3, pandas_metadata = True\<rparr>)
   \<and> snd (load_train_targets no_files default_loader fresh_world) = Inr None
   \<and> snd (load_train_targets some_files default_loader fresh_world) = Inr (Some targets3)"
proof -
  have f1: "some_files ''./raw_data/trade_train.parquet'' = Some broken_file"
    and f2: "some_files ''./raw_data/book_test.parquet'' = None"
    and f3: "some_files ''./raw_data/book_train.parquet'' = Some book3_file"
    and f4: "some_files ''./raw_data/train.csv'' = Some targets3_file"
    and f5: "no_files ''./raw_data/train.csv'' = None"
    by (simp_all add: some_files_def no_files_def)
  have r1: "read_parquet broken_file = Inl ''bad magic''"
    and r3: "ParquetFile book3_file
               = Inr \<lparr>num_row_groups = 1, schema = columns book3, pandas_metadata = True\<rparr>"
    and r4: "read_csv targets3_file = Inr targets3"
    by (simp_all add: broken_file_def book3_file_def targets3_file_def)
  note a = loader_failure_semantics
    [of some_files default_loader fresh_world "''trade''" "''train''" 5000
        "''./raw_data/book_test.parquet''"]
  note b = loader_failure_semantics
    [of some_files default_loader fresh_world "''book''" "''test''" 5000
        "''./raw_data/book_train.parquet''"]
  note c = loader_failure_semantics
    [of no_files default_loader fresh_world "''book''" "''all''" 5000
        "''./raw_data/book_test.parquet''"]
  note d = loader_failure_semantics
    [of some_files default_loader fresh_world "''book''" "''all''" 5000
        "''./raw_data/book_test.parquet''"]
  have "snd (load_sample_data some_files default_loader ''trade'' ''train'' 5000 fresh_world) = Inr None"
    using a f1 r1 by (auto simp: default_loader_paths)
  moreover
  have "snd (load_sample_data some_files default_loader ''book'' ''test'' 5000 fresh_world) = Inr None"
    using b f2 by (auto simp: default_loader_paths)
  moreover
  have "snd (load_sample_data some_files default_loader ''book'' ''all'' 5000 fresh_world) = Inl ValueError"
    using d by simp
  moreover
  have "snd (explore_parquet_structure some_files ''./raw_data/book_test.parquet'' fresh_world) = Inr None"
    using a f2 by simp
  moreover
  have "snd (explore_parquet_structure some_files ''./raw_data/book_train.parquet'' fresh_world)
          = Inr (Some \<lparr>num_row_groups = 1, schema = columns book3, pandas_metadata = True\<rparr>)"
    using b f3 r3 by simp
  moreover
  have "snd (load_train_targets no_files default_loader fresh_world) = Inr None"
    using c f5 by (simp add: default_loader_paths)
  moreover
  have "snd (load_train_targets some_files default_loader fresh_world) = Inr (Some targets3)"
    using a f4 r4 by (simp add: default_loader_paths)
  ultimately show ?thesis by blast
qed

section \<open>Properties of the visualizer\<close>

subsection \<open>What a statement leaves unchanged\<close>

lemma seq_io_frame:
  assumes "\<And>s w. s \<in> set ss \<Longrightarrow> f (fst (s w)) = f w"
  shows "f (fst (seq_io ss w)) = f w"
  using assms
proof (induction ss arbitrary: w)
  case Nil
  then show ?case by simp
next
  case (Cons s ss)
  obtain w' res where sw: "s w = (w', res)" by (cases "s w")
  have "f w' = f w" using Cons.prems [of s w] sw by simp
  moreover have "f (fst (seq_io ss w')) = f w'"
    using Cons.IH Cons.prems by simp
  ultimately show ?case
    using sw by (cases res) simp_all
qed

lemma getitem_frame:
  assumes "\<And>xs w. f (fst (k xs w)) = f w"
  shows "f (fst (getitem df c k w)) = f w"
  using assms by (simp add: getitem_def split: option.split)

lemma deref_frame:
  assumes "\<And>df w. f (fst (k df w)) = f w"
  shows "f (fst (deref r k w)) = f w"
  using assms by (simp add: deref_def)

lemma iloc0_frame:
  assumes "\<And>x w. f (fst (k x w)) = f w"
  shows "f (fst (iloc0 xs k w)) = f w"
  using assms by (simp add: iloc0_def split: list.split)

lemma print_io_objs [simp]: "objs (fst (print_io l vs w)) = objs w"
  and print_io_canvas [simp]: "canvas (fst (print_io l vs w)) = canvas w"
  by (simp_all add: print_io_def say_def)

lemma draw_objs [simp]: "objs (fst (draw g vs w)) = objs w"
  and draw_console [simp]: "console (fst (draw g vs w)) = console w"
  by (simp_all add: draw_def)

lemma return_io_fst [simp]: "fst (return_io x w) = w"
  by (simp add: return_io_def)

lemma raise_io_fst [simp]: "fst (raise_io e w) = w"
  by (simp add: raise_io_def)

lemma setitem_console [simp]: "console (fst (setitem r c xs w)) = console w"
  by (simp add: setitem_def)

lemmas objs_frame =
  seq_io_frame [where f = objs] getitem_frame [where f = objs]
  deref_frame [where f = objs] iloc0_frame [where f = objs]


lemma trade_in_time_objs: "objs (fst (trade_in_time r w)) = objs w"
  unfolding trade_in_time_def Let_def
  by (intro objs_frame) (auto intro!: objs_frame)

lemma trade_panels_objs:
  "s \<in> set (trade_panels r) \<Longrightarrow> objs (fst (s w)) = objs w"
  unfolding trade_panels_def
  by (auto intro!: objs_frame trade_in_time_objs)

lemma seq_trade_panels_objs: "objs (fst (seq_io (trade_panels r) w)) = objs w"
  by (rule seq_io_frame [where f = objs]) (erule trade_panels_objs)

lemma plot_trade_analysis_objs: "objs (fst (plot_trade_analysis df w)) = objs w"
  by (cases df) (simp_all add: plot_trade_analysis_def seq_trade_panels_objs)

lemma target_panels_objs:
  "s \<in> set (target_panels r) \<Longrightarrow> objs (fst (s w)) = objs w"
  unfolding target_panels_def
  by (auto simp: Let_def intro!: objs_frame)

lemma seq_target_panels_objs: "objs (fst (seq_io (target_panels r) w)) = objs w"
  by (rule seq_io_frame [where f = objs]) (erule target_panels_objs)

lemma plot_target_distribution_objs: "objs (fst (plot_target_distribution df w)) = objs w"
  by (cases df)
    (simp_all add: plot_target_distribution_def deref_def seq_target_panels_objs)

lemma basic_exploration_objs: "objs (fst (basic_exploration df name w)) = objs w"
proof (cases df)
  case None
  then show ?thesis by (simp add: basic_exploration_def)
next
  case (Some r)
  show ?thesis
    unfolding Some basic_exploration_def option.case
    by (intro objs_frame)
      (auto simp: explore_column_def print_io_def say_def intro!: objs_frame)
qed

lemma report_objs:
  "s \<in> set (report_header b t g @ report_targets g @ report_book b @ report_trades t
             @ report_footer) \<Longrightarrow> objs (fst (s w)) = objs w"
  by (auto simp: report_header_def report_targets_def report_book_def report_trades_def
      report_footer_def Let_def split: option.splits intro!: objs_frame)

lemma generate_summary_report_objs:
  "objs (fst (generate_summary_report ldr b t g w)) = objs w"
  unfolding generate_summary_report_def
  by (rule seq_io_frame [where f = objs]) (erule report_objs)


lemma seq_io_append:
  "seq_io (xs @ ys) w =
     (case seq_io xs w of (w', Inl e) \<Rightarrow> (w', Inl e) | (w', Inr u) \<Rightarrow> seq_io ys w')"
  by (induction xs arbitrary: w) (auto split: prod.split sum.split)

lemma book_spread_hist_objs: "objs (fst (book_spread_hist r w)) = objs w"
  unfolding book_spread_hist_def by (intro objs_frame) simp

lemma book_price_evolution_objs: "objs (fst (book_price_evolution r w)) = objs w"
  unfolding book_price_evolution_def Let_def
  by (intro objs_frame) (auto intro!: objs_frame)

lemma book_sizes_objs: "objs (fst (book_sizes r w)) = objs w"
  unfolding book_sizes_def by (intro objs_frame) simp

lemma book_seconds_objs: "objs (fst (book_seconds r w)) = objs w"
  unfolding book_seconds_def by (intro objs_frame) simp

lemma book_correlation_objs: "objs (fst (book_correlation r w)) = objs w"
  unfolding book_correlation_def Let_def by (intro objs_frame) simp

lemma book_time_stats_objs: "objs (fst (book_time_stats r w)) = objs w"
  unfolding book_time_stats_def Let_def
  by (intro objs_frame) (auto intro!: objs_frame)

lemma book_panels_objs:
  "s \<in> set (book_panels r) \<Longrightarrow> objs (fst (s w)) = objs w"
  unfolding book_panels_def
  by (auto simp: book_spread_hist_objs book_price_evolution_objs book_sizes_objs
      book_seconds_objs book_correlation_objs book_time_stats_objs)

lemma seq_book_panels_objs: "objs (fst (seq_io (book_panels r) w)) = objs w"
  by (rule seq_io_frame [where f = objs]) (erule book_panels_objs)

lemma book_spread_result:
  "book_spread r w =
     (case map_of (cols (objs w r)) ''ask_price1'' of
        None \<Rightarrow> (w, Inl (KeyError ''ask_price1''))
      | Some ask \<Rightarrow>
          (case map_of (cols (objs w r)) ''bid_price1'' of
             None \<Rightarrow> (w, Inl (KeyError ''bid_price1''))
           | Some bid \<Rightarrow>
               (w\<lparr>objs := (objs w)(r := (objs w r)
                    \<lparr>cols := AList.update ''spread_1'' (series_sub ask bid) (cols (objs w r))\<rparr>)\<rparr>,
                Inr ())))"
  by (simp add: book_spread_def deref_def getitem_def setitem_def split: option.split)

lemma plot_book_analysis_objs:
  "objs (fst (plot_book_analysis (Some r) w)) =
     (case map_of (cols (objs w r)) ''ask_price1'' of
        None \<Rightarrow> objs w
      | Some ask \<Rightarrow>
          (case map_of (cols (objs w r)) ''bid_price1'' of
             None \<Rightarrow> objs w
           | Some bid \<Rightarrow>
               (objs w)(r := (objs w r)
                 \<lparr>cols := AList.update ''spread_1'' (series_sub ask bid) (cols (objs w r))\<rparr>)))"
  by (simp add: plot_book_analysis_def draw_def book_spread_result seq_book_panels_objs
      split: option.split)


text \<open>
  C3, as the code has it. The claim that every summary and plot operation leaves the
  table it receives unchanged fails for \<^verbatim>\<open>plot_book_analysis\<close>: line 69 assigns the
  column \<open>spread_1\<close> of the caller's frame.
\<close>

theorem plot_book_analysis_adds_column:
  "objs (fst (plot_book_analysis (Some 0) (world_of book1))) 0 \<noteq> objs (world_of book1) 0"
  by (simp add: plot_book_analysis_objs world_of_def book1_def)

text \<open>
  C3, amended. \<^verbatim>\<open>basic_exploration\<close>, \<^verbatim>\<open>plot_target_distribution\<close>,
  \<^verbatim>\<open>plot_trade_analysis\<close> and \<^verbatim>\<open>generate_summary_report\<close> leave every table object
  as it was. \<^verbatim>\<open>plot_book_analysis\<close> leaves every other object, the row count and every
  column but \<open>spread_1\<close> as they were; when the frame has \<open>ask_price1\<close> and
  \<open>bid_price1\<close> it replaces or appends the column \<open>spread_1\<close>, their difference, and
  when one of the two is missing it changes nothing.
\<close>

theorem summaries_and_plots_frame:
  "objs (fst (basic_exploration df data_name w)) = objs w
   \<and> objs (fst (plot_target_distribution df w)) = objs w
   \<and> objs (fst (plot_trade_analysis df w)) = objs w
   \<and> objs (fst (generate_summary_report ldr book_data trade_data target_data w)) = objs w
   \<and> objs (fst (plot_book_analysis None w)) = objs w
   \<and> (\<forall>r'. r' \<noteq> r \<longrightarrow> objs (fst (plot_book_analysis (Some r) w)) r' = objs w r')
   \<and> nrows (objs (fst (plot_book_analysis (Some r) w)) r) = nrows (objs w r)
   \<and> (\<forall>c. c \<noteq> ''spread_1'' \<longrightarrow>
         map_of (cols (objs (fst (plot_book_analysis (Some r) w)) r)) c
           = map_of (cols (objs w r)) c)
   \<and> (\<forall>ask bid. map_of (cols (objs w r)) ''ask_price1'' = Some ask \<longrightarrow>
         map_of (cols (objs w r)) ''bid_price1'' = Some bid \<longrightarrow>
         cols (objs (fst (plot_book_analysis (Some r) w)) r)
           = AList.update ''spread_1'' (series_sub ask bid) (cols (objs w r)))
   \<and> (map_of (cols (objs w r)) ''ask_price1'' = None
        \<or> map_of (cols (objs w r)) ''bid_price1'' = None \<longrightarrow>
         objs (fst (plot_book_analysis (Some r) w)) = objs w)"
proof (intro conjI allI impI)
  show "objs (fst (basic_exploration df data_name w)) = objs w"
    by (rule basic_exploration_objs)
  show "objs (fst (plot_target_distribution df w)) = objs w"
    by (rule plot_target_distribution_objs)
  show "objs (fst (plot_trade_analysis df w)) = objs w"
    by (rule plot_trade_analysis_objs)
  show "objs (fst (generate_summary_report ldr book_data trade_data target_data w)) = objs w"
    by (rule generate_summary_report_objs)
  show "objs (fst (plot_book_analysis None w)) = objs w"
    by (simp add: plot_book_analysis_def)
  show "objs (fst (plot_book_analysis (Some r) w)) r' = objs w r'" if "r' \<noteq> r" for r'
    using that by (simp add: plot_book_analysis_objs split: option.split)
  show "nrows (objs (fst (plot_book_analysis (Some r) w)) r) = nrows (objs w r)"
    by (simp add: plot_book_analysis_objs split: option.split)
  show "map_of (cols (objs (fst (plot_book_analysis (Some r) w)) r)) c
          = map_of (cols (objs w r)) c" if "c \<noteq> ''spread_1''" for c
    using that by (simp add: plot_book_analysis_objs update_conv' split: option.split)
  show "cols (objs (fst (plot_book_analysis (Some r) w)) r)
          = AList.update ''spread_1'' (series_sub ask bid) (cols (objs w r))"
    if "map_of (cols (objs w r)) ''ask_price1'' = Some ask"
      and "map_of (cols (objs w r)) ''bid_price1'' = Some bid" for ask bid
    using that by (simp add: plot_book_analysis_objs)
  show "objs (fst (plot_book_analysis (Some r) w)) = objs w"
    if "map_of (cols (objs w r)) ''ask_price1'' = None
          \<or> map_of (cols (objs w r)) ''bid_price1'' = None"
    using that by (auto simp: plot_book_analysis_objs split: option.split)
qed

lemma book1_prices:
  "map_of (cols (objs (world_of book1) 0)) ''ask_price1'' = Some [Num (201 / 2)]"
  "map_of (cols (objs (world_of book1) 0)) ''bid_price1'' = Some [Num 100]"
  by (simp_all add: world_of_def book1_def)

theorem summaries_and_plots_frame_witness:
  "(1::nat) \<noteq> 0 \<and> ''bid_price1'' \<noteq> ''spread_1''
   \<and> objs (fst (plot_book_analysis (Some 0) (world_of book1))) 1 = book1
   \<and> map_of (cols (objs (fst (plot_book_analysis (Some 0) (world_of book1))) 0)) ''bid_price1''
       = Some [Num 100]
   \<and> cols (objs (fst (plot_book_analysis (Some 0) (world_of book1))) 0)
       = cols book1 @ [(''spread_1'', [Num (1 / 2)])]
   \<and> objs (fst (plot_book_analysis (Some 0) (world_of trades_no_size))) 0 = trades_no_size"
proof -
  note a = summaries_and_plots_frame [where r = 0 and w = "world_of book1"]
  note b = summaries_and_plots_frame [where r = 0 and w = "world_of trades_no_size"]
  have n: "map_of (cols (objs (world_of trades_no_size) 0)) ''ask_price1'' = None"
    by (simp add: world_of_def trades_no_size_def)
  have "objs (fst (plot_book_analysis (Some 0) (world_of book1))) 1 = book1"
    using a by (simp add: world_of_def)
  moreover
  have "\<forall>c. c \<noteq> ''spread_1'' \<longrightarrow>
          map_of (cols (objs (fst (plot_book_analysis (Some 0) (world_of book1))) 0)) c
            = map_of (cols (objs (world_of book1) 0)) c"
    using a by blast
  then have "map_of (cols (objs (fst (plot_book_analysis (Some 0) (world_of book1))) 0)) ''bid_price1''
          = Some [Num 100]"
    using book1_prices by simp
  moreover
  have "cols (objs (fst (plot_book_analysis (Some 0) (world_of book1))) 0)
          = AList.update ''spread_1'' (series_sub [Num (201 / 2)] [Num 100])
              (cols (objs (world_of book1) 0))"
    using a book1_prices by blast
  then have "cols (objs (fst (plot_book_analysis (Some 0) (world_of book1))) 0)
          = cols book1 @ [(''spread_1'', [Num (1 / 2)])]"
    by (simp add: world_of_def book1_def series_sub_def)
  moreover
  have "objs (fst (plot_book_analysis (Some 0) (world_of trades_no_size))) 0 = trades_no_size"
    using b n by (simp add: world_of_def)
  ultimately show ?thesis by simp
qed




subsection \<open>The guard of the target plot\<close>


lemma plot_target_distribution_guard:
  "plot_target_distribution None w = (say 10 [] w, Inr ())"
  "''target'' \<notin> set (columns (objs w r)) \<Longrightarrow>
     plot_target_distribution (Some r) w = (say 10 [] w, Inr ())"
  by (simp_all add: plot_target_distribution_def deref_def print_io_def)

text \<open>
  C5, as the code has it. The claim that an empty target table is not rendered fails: the
  guard at line 9 looks for the column \<open>target\<close>, not for rows, so a table with the
  three columns and no row gets no notice and the figure is drawn.
\<close>

theorem plot_target_distribution_empty_renders:
  "console (fst (plot_target_distribution (Some 0) (world_of targets0))) = []
   \<and> canvas (fst (plot_target_distribution (Some 0) (world_of targets0))) \<noteq> []"
  by (simp add: plot_target_distribution_def deref_def world_of_def targets0_def columns_def
      target_panels_def draw_def getitem_def Let_def)

text \<open>
  C5, amended. For a target table that is absent, or that has no column \<open>target\<close> (a
  table without any column among them), \<^verbatim>\<open>plot_target_distribution\<close> prints exactly one
  notice, draws nothing, changes no table and raises nothing.
\<close>

theorem plot_target_distribution_without_target:
  "plot_target_distribution None w = (say 10 [] w, Inr ())
   \<and> (''target'' \<notin> set (columns (objs w r)) \<longrightarrow>
         plot_target_distribution (Some r) w = (say 10 [] w, Inr ()))
   \<and> console (say 10 [] w) = console w @ [Print 10 []]
   \<and> canvas (say 10 [] w) = canvas w
   \<and> objs (say 10 [] w) = objs w"
  by (simp add: plot_target_distribution_guard say_def)

theorem plot_target_distribution_without_target_witness:
  "plot_target_distribution (Some 0) (world_of empty_table)
     = (\<lparr>console = [Print 10 []], canvas = [], objs = (\<lambda>r. empty_table)\<rparr>, Inr ())
   \<and> plot_target_distribution (Some 0) (world_of book1)
     = (\<lparr>console = [Print 10 []], canvas = [], objs = (\<lambda>r. book1)\<rparr>, Inr ())
   \<and> plot_target_distribution None (world_of targets3)
     = (\<lparr>console = [Print 10 []], canvas = [], objs = (\<lambda>r. targets3)\<rparr>, Inr ())"
proof -
  have e: "''target'' \<notin> set (columns (objs (world_of empty_table) 0))"
    by (simp add: world_of_def empty_table_def columns_def)
  have b: "''target'' \<notin> set (columns (objs (world_of book1) 0))"
    by (simp add: world_of_def book1_def columns_def)
  show ?thesis
    using plot_target_distribution_without_target [of "world_of empty_table" 0]
      plot_target_distribution_without_target [of "world_of book1" 0]
      plot_target_distribution_without_target [of "world_of targets3" 0] e b
    by (simp add: say_def world_of_def)
qed

subsection \<open>Missing columns\<close>
















subsection \<open>The report on the label table\<close>

lemma seq_io_console_grows:
  assumes "\<And>s w. s \<in> set ss \<Longrightarrow> \<exists>ys. console (fst (s w)) = console w @ ys"
  shows "\<exists>ys. console (fst (seq_io ss w)) = console w @ ys"
  using assms
proof (induction ss arbitrary: w)
  case Nil
  then show ?case by simp
next
  case (Cons s ss)
  obtain w' res where sw: "s w = (w', res)" by (cases "s w")
  obtain ys where ys: "console w' = console w @ ys"
    using Cons.prems [of s w] sw by auto
  obtain zs where zs: "console (fst (seq_io ss w')) = console w' @ zs"
    using Cons.IH [of w'] Cons.prems by auto
  show ?case
    using sw ys zs by (cases res) simp_all
qed

lemma print_io_console_grows: "\<exists>ys. console (fst (print_io l vs w)) = console w @ ys"
  by (simp add: print_io_def say_def)

lemma getitem_console_grows:
  assumes "\<And>xs w. \<exists>ys. console (fst (k xs w)) = console w @ ys"
  shows "\<exists>ys. console (fst (getitem df c k w)) = console w @ ys"
  using assms by (simp add: getitem_def split: option.split)

lemma deref_console_grows:
  assumes "\<And>df w. \<exists>ys. console (fst (k df w)) = console w @ ys"
  shows "\<exists>ys. console (fst (deref r k w)) = console w @ ys"
  using assms by (simp add: deref_def)

lemmas console_grows = print_io_console_grows getitem_console_grows deref_console_grows

lemma report_tail_console_grows:
  "s \<in> set (report_book b @ report_trades t @ report_footer)
     \<Longrightarrow> \<exists>ys. console (fst (s w)) = console w @ ys"
  by (auto simp: report_book_def report_trades_def report_footer_def Let_def
      split: option.splits intro!: console_grows)

lemma std_targets3: "std [Num (1 / 100), Num (1 / 50), Num (3 / 100)] = Num (1 / 100)"
proof -
  have "sqrt (1 / 10000) = 1 / (100::real)"
    by (rule real_sqrt_unique) (simp_all add: power2_eq_square)
  then show ?thesis
    by (simp add: std_def Let_def power2_eq_square)
qed

lemma median_targets3: "median [Num (1 / 100), Num (1 / 50), Num (3 / 100)] = Num (1 / 50)"
  by (simp add: median_def Let_def)

lemma report_head_targets3:
  assumes "objs w r = targets3"
  shows "seq_io (report_header b t (Some r) @ report_targets (Some r)) w =
           (w\<lparr>console := console w @
               [Print 173 [], Print 174 [], Print 175 [], Print 177 [],
                Print 178 [B (b \<noteq> None)], Print 179 [B (t \<noteq> None)], Print 180 [B True],
                Print 183 [], Print 184 [N 3], Print 185 [N 2], Print 186 [N 2],
                Print 187 [R (Num (2 / 100))], Print 188 [R (Num (2 / 100))],
                Print 189 [R (Num (1 / 100))]]\<rparr>, Inr ())"
  using assms
  by (simp add: report_header_def report_targets_def print_io_def say_def deref_def
      getitem_def targets3_def nunique_def mean_def std_targets3 median_targets3)


text \<open>
  C8. For the target table of the three rows (stock 1, time 1, 0.01), (stock 1, time 2,
  0.02), (stock 2, time 1, 0.03), whatever the book and trade tables are, the report
  prints after its header: 3 observations, 2 stocks, 2 time buckets, mean 0.02 (and
  median 0.02, standard deviation 0.01).
\<close>

theorem report_on_three_targets:
  assumes "objs w r = targets3"
  shows "\<exists>rest. console (fst (generate_summary_report ldr book_data trade_data (Some r) w)) =
           console w @
             [Print 173 [], Print 174 [], Print 175 [], Print 177 [],
              Print 178 [B (book_data \<noteq> None)], Print 179 [B (trade_data \<noteq> None)],
              Print 180 [B True],
              Print 183 [], Print 184 [N 3], Print 185 [N 2], Print 186 [N 2],
              Print 187 [R (Num (2 / 100))], Print 188 [R (Num (2 / 100))],
              Print 189 [R (Num (1 / 100))]] @ rest"
proof -
  let ?tail = "report_book book_data @ report_trades trade_data @ report_footer"
  obtain w1 where w1: "seq_io (report_header book_data trade_data (Some r)
                                @ report_targets (Some r)) w = (w1, Inr ())"
    and c1: "console w1 = console w @
             [Print 173 [], Print 174 [], Print 175 [], Print 177 [],
              Print 178 [B (book_data \<noteq> None)], Print 179 [B (trade_data \<noteq> None)],
              Print 180 [B True],
              Print 183 [], Print 184 [N 3], Print 185 [N 2], Print 186 [N 2],
              Print 187 [R (Num (2 / 100))], Print 188 [R (Num (2 / 100))],
              Print 189 [R (Num (1 / 100))]]"
    using report_head_targets3 [OF assms, of book_data trade_data] by simp
  have "generate_summary_report ldr book_data trade_data (Some r) w =
          seq_io ((report_header book_data trade_data (Some r) @ report_targets (Some r))
                  @ ?tail) w"
    unfolding generate_summary_report_def by (simp only: append_assoc)
  also have "\<dots> = seq_io ?tail w1"
    by (simp only: seq_io_append [of _ ?tail] w1 prod.case sum.case)
  finally have "generate_summary_report ldr book_data trade_data (Some r) w = seq_io ?tail w1" .
  moreover obtain rest where "console (fst (seq_io ?tail w1)) = console w1 @ rest"
    using seq_io_console_grows [of ?tail w1] report_tail_console_grows by blast
  ultimately show ?thesis
    using c1 by simp
qed

theorem report_on_three_targets_witness:
  "take 4 (drop 8 (console (fst (generate_summary_report default_loader None None (Some 0)
      (world_of targets3))))) =
     [Print 184 [N 3], Print 185 [N 2], Print 186 [N 2], Print 187 [R (Num (2 / 100))]]"
proof -
  have "objs (world_of targets3) 0 = targets3"
    by (simp add: world_of_def)
  from report_on_three_targets [OF this, of default_loader None None]
  obtain rest where
    "console (fst (generate_summary_report default_loader None None (Some 0) (world_of targets3)))
       = console (world_of targets3) @
             [Print 173 [], Print 174 [], Print 175 [], Print 177 [],
              Print 178 [B False], Print 179 [B False],
              Print 180 [B True],
              Print 183 [], Print 184 [N 3], Print 185 [N 2], Print 186 [N 2],
              Print 187 [R (Num (2 / 100))], Print 188 [R (Num (2 / 100))],
              Print 189 [R (Num (1 / 100))]] @ rest"
    by auto
  then show ?thesis
    by (simp add: world_of_def)
qed

end
